theory Spec2Isabelle
  imports Complex_Main "HOL-Library.Multiset" "HOL-Library.Product_Lexorder"
    "HOL-Library.Log_Nat"
begin

section \<open>Data model (main.go, lines 56-90)\<close>

text \<open>
  The fields of \<open>Process\<close> and \<open>TimeSlice\<close> are \<open>int64\<close> in the source. An \<open>int64\<close>
  value is modelled as an integer, and an \<open>int64\<close> operation of the source as the exact
  operation followed by \<open>int64\<close>, which wraps the result into the range from \<open>-2^63\<close> to
  \<open>2^63 - 1\<close> as the machine does. Two counters are left exact: the clock of
  \<open>SJFSchedule\<close> and \<open>SJFPrioritySchedule\<close> and their count of completed processes start at
  0 and grow by one in an iteration of the loop, so they cannot leave the range in a run
  of fewer than \<open>2^63\<close> iterations.
\<close>

definition int64 :: "int \<Rightarrow> int" where
  "int64 x = (x + 9223372036854775808) mod 18446744073709551616 - 9223372036854775808"

definition is_int64 :: "int \<Rightarrow> bool" where
  "is_int64 x \<longleftrightarrow> - 9223372036854775808 \<le> x \<and> x < 9223372036854775808"

record Process =
  ProcessID :: int
  ArrivalTime :: int
  BurstDuration :: int
  Priority :: int
  RemainingTime :: int
  CompleteTime :: int
  TurnAroundTime :: int
  WaitTime :: int

record TimeSlice =
  PID :: int
  Start :: int
  Stop :: int

text \<open>
  A row of the schedule table is a \<open>[]string\<close> holding \<open>fmt.Sprint\<close> of seven
  \<open>int64\<close> values, in the order of the table header of \<open>outputSchedule\<close>
  (ID, Priority, Burst, Arrival, Wait, Turnaround, Exit). \<open>fmt.Sprint\<close> is injective on
  integers, so a row is modelled by the seven integers. \<open>make([][]string, n)\<close> gives
  \<open>n\<close> nil rows: a table is a list of optional rows, \<open>None\<close> the nil row.
\<close>

record Row =
  row_ID :: int
  row_Priority :: int
  row_Burst :: int
  row_Arrival :: int
  row_Wait :: int
  row_Turnaround :: int
  row_Exit :: int

text \<open>
  The run-time panics of Go that the schedulers can raise: an index expression out of
  range, and a slice expression with bounds out of range.
\<close>

datatype panic = IndexOutOfRange | SliceBoundsOutOfRange

definition index :: "'a list \<Rightarrow> int \<Rightarrow> panic + 'a" where
  "index xs i = (if 0 \<le> i \<and> i < int (length xs) then Inr (xs ! nat i) else Inl IndexOutOfRange)"

definition set_index :: "'a list \<Rightarrow> int \<Rightarrow> 'a \<Rightarrow> panic + 'a list" where
  "set_index xs i v =
     (if 0 \<le> i \<and> i < int (length xs) then Inr (xs[nat i := v]) else Inl IndexOutOfRange)"

text \<open>\<open>AddProcess\<close> and \<open>RemoveProcess\<close> of both queue types (lines 76-90).
  \<open>processes[index+1:]\<close> panics when \<open>index + 1\<close> exceeds the length.\<close>

definition AddProcess :: "Process \<Rightarrow> Process list \<Rightarrow> Process list" where
  "AddProcess p processes = processes @ [p]"

definition RemoveProcess :: "nat \<Rightarrow> Process list \<Rightarrow> panic + Process list" where
  "RemoveProcess i processes =
     (if i < length processes then Inr (take i processes @ drop (Suc i) processes)
      else Inl SliceBoundsOutOfRange)"

section \<open>Aggregates\<close>

text \<open>
  The totals and the three aggregates are \<open>float64\<close> values: IEEE 754 binary64, rounded
  to the nearest value with ties to the even significand. A finite value is modelled by
  the rational it denotes; the negative zero, the two infinities and NaN are values of
  their own. Division by zero does not panic in Go: \<open>0/0\<close> is NaN and \<open>x/0\<close> an
  infinity.
\<close>

datatype float64 = Finite rat | NegZero | PosInf | NegInf | NaN

definition pow2 :: "int \<Rightarrow> rat" where
  "pow2 k = (if 0 \<le> k then 2 ^ nat k else 1 / 2 ^ nat (- k))"

text \<open>The binary exponent of a positive rational \<open>x\<close>: the \<open>e\<close> with
  \<open>2^e \<le> x < 2^(e+1)\<close>, found from the bit lengths of numerator and denominator.\<close>

definition exponent2 :: "rat \<Rightarrow> int" where
  "exponent2 x =
     (case quotient_of x of
        (a, b) \<Rightarrow> (let e = bitlen a - bitlen b in if pow2 e \<le> x then e else e - 1))"

definition round_half_even :: "rat \<Rightarrow> int" where
  "round_half_even x =
     (let f = \<lfloor>x\<rfloor>; d = x - of_int f
      in if d < 1 / 2 then f else if 1 / 2 < d then f + 1 else if even f then f else f + 1)"

text \<open>Rounding of an exact result to \<open>float64\<close>: 53 significant bits, the least exponent
  -1022 (below it the spacing of the subnormal values stays \<open>2^-1074\<close>), and an infinity
  when the rounded value reaches \<open>2^1024\<close>, that is when the exponent exceeds 1023 or
  the significand is rounded up to \<open>2^53\<close> at the exponent 1023.\<close>

definition to_float64 :: "rat \<Rightarrow> float64" where
  "to_float64 x =
     (if x = 0 then Finite 0
      else
        (let e = max (exponent2 \<bar>x\<bar>) (- 1022);
             q = pow2 (e - 52);
             m = round_half_even (\<bar>x\<bar> / q)
         in if 1023 < e \<or> (e = 1023 \<and> m = 9007199254740992)
            then (if 0 < x then PosInf else NegInf)
            else if m = 0 then (if 0 < x then Finite 0 else NegZero)
            else Finite (if 0 < x then of_int m * q else - (of_int m * q))))"

text \<open>The conversion \<open>float64(n)\<close> of an integer.\<close>

definition float64_of_int :: "int \<Rightarrow> float64" where
  "float64_of_int n = to_float64 (of_int n)"

definition is_zero :: "float64 \<Rightarrow> bool" where
  "is_zero a \<longleftrightarrow> a = Finite 0 \<or> a = NegZero"

definition is_inf :: "float64 \<Rightarrow> bool" where
  "is_inf a \<longleftrightarrow> a = PosInf \<or> a = NegInf"

definition is_neg :: "float64 \<Rightarrow> bool" where
  "is_neg a = (case a of Finite x \<Rightarrow> x < 0 | NegZero \<Rightarrow> True | NegInf \<Rightarrow> True | _ \<Rightarrow> False)"

definition rat_of :: "float64 \<Rightarrow> rat" where
  "rat_of a = (case a of Finite x \<Rightarrow> x | _ \<Rightarrow> 0)"

definition fadd :: "float64 \<Rightarrow> float64 \<Rightarrow> float64" where
  "fadd a b =
     (if a = NaN \<or> b = NaN then NaN
      else if is_inf a then (if is_inf b \<and> b \<noteq> a then NaN else a)
      else if is_inf b then b
      else if a = NegZero \<and> b = NegZero then NegZero
      else if rat_of a + rat_of b = 0 then Finite 0
      else to_float64 (rat_of a + rat_of b))"

definition fdiv :: "float64 \<Rightarrow> float64 \<Rightarrow> float64" where
  "fdiv a b =
     (if a = NaN \<or> b = NaN then NaN
      else if (is_inf a \<and> is_inf b) \<or> (is_zero a \<and> is_zero b) then NaN
      else if is_inf a \<or> is_zero b then (if is_neg a = is_neg b then PosInf else NegInf)
      else if is_inf b \<or> is_zero a then (if is_neg a = is_neg b then Finite 0 else NegZero)
      else to_float64 (rat_of a / rat_of b))"

text \<open>What a scheduler writes, in order: the calls of the output helpers (lines 390-424)
  with their arguments.\<close>

datatype out_call =
    OutputTitle string
  | OutputGantt "TimeSlice list"
  | OutputSchedule "Row option list" float64 float64 float64

section \<open>Ordering policies (lines 373-388)\<close>

definition lessArrival :: "Process \<Rightarrow> Process \<Rightarrow> bool" where
  "lessArrival a b \<longleftrightarrow>
     ArrivalTime a < ArrivalTime b \<or>
     (ArrivalTime a = ArrivalTime b \<and> BurstDuration a < BurstDuration b)"

definition lessDeploy :: "Process \<Rightarrow> Process \<Rightarrow> bool" where
  "lessDeploy a b \<longleftrightarrow>
     RemainingTime a < RemainingTime b \<or>
     (RemainingTime a = RemainingTime b \<and> ArrivalTime a < ArrivalTime b)"

definition lessPriority :: "Process \<Rightarrow> Process \<Rightarrow> bool" where
  "lessPriority a b \<longleftrightarrow>
     Priority a < Priority b \<or>
     (Priority a = Priority b \<and> BurstDuration a < BurstDuration b) \<or>
     (Priority a = Priority b \<and> BurstDuration a = BurstDuration b \<and>
      ArrivalTime a < ArrivalTime b)"

text \<open>
  \<open>sort.Slice\<close> belongs to Go's standard library. It rearranges the slice so that no
  element is less than one before it, and it is not stable: the order of elements of
  which neither is less than the other is left open. \<open>sorts_by lt srt\<close> says that \<open>srt\<close>
  is such a sort for the comparator \<open>lt\<close>. On a slice of at most twelve elements the
  library runs the insertion sort \<open>sortSlice\<close>: each element in turn is swapped to the
  left while it is less than its left neighbour. \<open>bubble\<close> works on the reversed sorted
  prefix.
\<close>

definition sorts_by :: "('a \<Rightarrow> 'a \<Rightarrow> bool) \<Rightarrow> ('a list \<Rightarrow> 'a list) \<Rightarrow> bool" where
  "sorts_by lt srt \<longleftrightarrow>
     (\<forall>xs. mset (srt xs) = mset xs \<and> sorted_wrt (\<lambda>a b. \<not> lt b a) (srt xs))"

fun bubble :: "('a \<Rightarrow> 'a \<Rightarrow> bool) \<Rightarrow> 'a \<Rightarrow> 'a list \<Rightarrow> 'a list" where
  "bubble lt x [] = [x]"
| "bubble lt x (y # ys) = (if lt x y then y # bubble lt x ys else x # y # ys)"

definition sortSlice :: "('a \<Rightarrow> 'a \<Rightarrow> bool) \<Rightarrow> 'a list \<Rightarrow> 'a list" where
  "sortSlice lt xs = rev (foldl (\<lambda>acc x. bubble lt x acc) [] xs)"

definition sortArrivalQueue :: "Process list \<Rightarrow> Process list" where
  "sortArrivalQueue pq = sortSlice lessArrival pq"

definition sortDeployQueue :: "Process list \<Rightarrow> Process list" where
  "sortDeployQueue pq = sortSlice lessDeploy pq"

definition sortPriorityQueue :: "Process list \<Rightarrow> Process list" where
  "sortPriorityQueue pq = sortSlice lessPriority pq"

section \<open>FCFSSchedule (lines 97-147)\<close>

record FCFS_state =
  fcfs_serviceTime :: int
  fcfs_totalWait :: float64
  fcfs_totalTurnaround :: float64
  fcfs_lastCompletion :: float64
  fcfs_waitingTime :: int
  fcfs_schedule :: "Row option list"
  fcfs_gantt :: "TimeSlice list"

text \<open>The body of the loop of lines 107-137 at index \<open>i\<close>.\<close>

definition FCFS_body :: "Process list \<Rightarrow> FCFS_state \<Rightarrow> nat \<Rightarrow> FCFS_state" where
  "FCFS_body processes s i =
     (let p = processes ! i;
          waitingTime = (if ArrivalTime p > 0 then int64 (fcfs_serviceTime s - ArrivalTime p)
                         else fcfs_waitingTime s);
          start = int64 (waitingTime + ArrivalTime p);
          turnaround = int64 (BurstDuration p + waitingTime);
          completion = int64 (int64 (BurstDuration p + ArrivalTime p) + waitingTime);
          serviceTime = int64 (fcfs_serviceTime s + BurstDuration p)
      in \<lparr> fcfs_serviceTime = serviceTime,
           fcfs_totalWait = fadd (fcfs_totalWait s) (float64_of_int waitingTime),
           fcfs_totalTurnaround = fadd (fcfs_totalTurnaround s) (float64_of_int turnaround),
           fcfs_lastCompletion = float64_of_int completion,
           fcfs_waitingTime = waitingTime,
           fcfs_schedule = (fcfs_schedule s)[i := Some
             \<lparr> row_ID = ProcessID p, row_Priority = Priority p, row_Burst = BurstDuration p,
               row_Arrival = ArrivalTime p, row_Wait = waitingTime,
               row_Turnaround = turnaround, row_Exit = completion \<rparr>],
           fcfs_gantt = fcfs_gantt s @ [\<lparr> PID = ProcessID p, Start = start, Stop = serviceTime \<rparr>] \<rparr>)"

definition FCFS_init :: "Process list \<Rightarrow> FCFS_state" where
  "FCFS_init processes =
     \<lparr> fcfs_serviceTime = 0, fcfs_totalWait = Finite 0, fcfs_totalTurnaround = Finite 0,
       fcfs_lastCompletion = Finite 0, fcfs_waitingTime = 0,
       fcfs_schedule = replicate (length processes) None, fcfs_gantt = [] \<rparr>"

text \<open>\<open>for i := range processes\<close>: the indices \<open>0, ..., len(processes) - 1\<close> in order,
  so every \<open>processes[i]\<close> and \<open>schedule[i]\<close> is in range and the function cannot panic.\<close>

definition FCFS_loop :: "Process list \<Rightarrow> FCFS_state" where
  "FCFS_loop processes = foldl (FCFS_body processes) (FCFS_init processes) [0..<length processes]"

definition FCFSSchedule :: "string \<Rightarrow> Process list \<Rightarrow> out_call list" where
  "FCFSSchedule title processes =
     (let s = FCFS_loop processes;
          count = float64_of_int (int (length processes));
          aveWait = fdiv (fcfs_totalWait s) count;
          aveTurnaround = fdiv (fcfs_totalTurnaround s) count;
          aveThroughput = fdiv count (fcfs_lastCompletion s)
      in [OutputTitle title, OutputGantt (fcfs_gantt s),
          OutputSchedule (fcfs_schedule s) aveWait aveTurnaround aveThroughput])"

section \<open>SJFSchedule (lines 214-281) and SJFPrioritySchedule (lines 149-212)\<close>

text \<open>
  The two functions are the same statement for statement, except for the sort applied to
  the ready queue after an arrival: \<open>sortDeployQueue\<close> at line 268,
  \<open>sortPriorityQueue\<close> at line 201. The model has one body, \<open>preemptive\<close>, that takes
  the sort of the pending queue (lines 162 and 227) as its argument \<open>srtA\<close> and the sort
  of the ready queue as its argument \<open>srt\<close>. Neither function builds a gantt chart or
  calls \<open>outputGantt\<close>.
\<close>

record pre_state =
  pre_totalWait :: float64
  pre_totalTurnaround :: float64
  pre_schedule :: "Row option list"
  pre_currentTime :: int
  pre_pqA :: "Process list"
  pre_pq :: "Process list"
  pre_process :: Process
  pre_count :: int

text \<open>The arrival scan of lines 262-272: the first index of the pending queue whose
  process arrives exactly at the clock \<open>t\<close>; the \<open>break\<close> ends the scan there.\<close>

fun scan :: "int \<Rightarrow> Process list \<Rightarrow> nat \<Rightarrow> (nat \<times> Process) option" where
  "scan t [] i = None"
| "scan t (p # ps) i = (if ArrivalTime p = t then Some (i, p) else scan t ps (Suc i))"

definition row_of :: "Process \<Rightarrow> Row" where
  "row_of p =
     \<lparr> row_ID = ProcessID p, row_Priority = Priority p, row_Burst = BurstDuration p,
       row_Arrival = ArrivalTime p, row_Wait = WaitTime p,
       row_Turnaround = TurnAroundTime p, row_Exit = CompleteTime p \<rparr>"

text \<open>One iteration of the loop of lines 232-274: the running process is taken from the
  head of the ready queue when the previous one has finished, its remaining time is
  decremented and the clock advanced; then the completion check, which ends the
  iteration (\<open>continue\<close>) when it succeeds; then the arrival scan.\<close>

definition pre_tick :: "(Process list \<Rightarrow> Process list) \<Rightarrow> pre_state \<Rightarrow> panic + pre_state" where
  "pre_tick srt s =
     (case (if RemainingTime (pre_process s) = 0 then index (pre_pq s) 0
            else Inr (pre_process s)) of
        Inl e \<Rightarrow> Inl e
      | Inr p0 \<Rightarrow>
         (let p1 = p0\<lparr>RemainingTime := int64 (RemainingTime p0 - 1)\<rparr>;
              t = pre_currentTime s + 1
          in if RemainingTime p1 = 0 then
               (let p2 = p1\<lparr>CompleteTime := t\<rparr>;
                    p3 = p2\<lparr>TurnAroundTime := int64 (CompleteTime p2 - ArrivalTime p2)\<rparr>;
                    p4 = p3\<lparr>WaitTime := int64 (TurnAroundTime p3 - BurstDuration p3)\<rparr>
                in case set_index (pre_schedule s) (pre_count s) (Some (row_of p4)) of
                     Inl e \<Rightarrow> Inl e
                   | Inr sch \<Rightarrow>
                      (case RemoveProcess 0 (pre_pq s) of
                         Inl e \<Rightarrow> Inl e
                       | Inr pq' \<Rightarrow>
                           Inr (s\<lparr> pre_totalWait :=
                                     fadd (pre_totalWait s) (float64_of_int (WaitTime p4)),
                                   pre_totalTurnaround :=
                                     fadd (pre_totalTurnaround s) (float64_of_int (TurnAroundTime p4)),
                                   pre_schedule := sch,
                                   pre_currentTime := t,
                                   pre_pq := pq',
                                   pre_process := p4,
                                   pre_count := pre_count s + 1 \<rparr>)))
             else
               (case scan t (pre_pqA s) 0 of
                  None \<Rightarrow> Inr (s\<lparr> pre_currentTime := t, pre_process := p1 \<rparr>)
                | Some (i, p) \<Rightarrow>
                   (case RemoveProcess 0 (pre_pq s) of
                      Inl e \<Rightarrow> Inl e
                    | Inr pq1 \<Rightarrow>
                       (case RemoveProcess i (pre_pqA s) of
                          Inl e \<Rightarrow> Inl e
                        | Inr pqA' \<Rightarrow>
                           (let pq2 = srt (AddProcess p1 (AddProcess p pq1))
                            in case index pq2 0 of
                                 Inl e \<Rightarrow> Inl e
                               | Inr h \<Rightarrow>
                                   Inr (s\<lparr> pre_currentTime := t, pre_pqA := pqA',
                                           pre_pq := pq2, pre_process := h \<rparr>)))))))"

text \<open>The loop itself. It need not end in any time that matters (a burst of zero is
  decremented below zero, and meets zero again only after the remaining time has wrapped
  around): \<open>None\<close> is the run that does not return.\<close>

partial_function (option) pre_loop ::
  "(Process list \<Rightarrow> Process list) \<Rightarrow> pre_state \<Rightarrow> (panic + pre_state) option" where
  "pre_loop srt s =
     (if length (pre_pq s) > 0 then
        (case pre_tick srt s of Inl e \<Rightarrow> Some (Inl e) | Inr s' \<Rightarrow> pre_loop srt s')
      else Some (Inr s))"

declare pre_loop.simps [code]

text \<open>Lines 223-231: the working copies, each with \<open>RemainingTime\<close> set to the burst,
  are appended to the pending queue, which is sorted by arrival; its head seeds the ready
  queue. \<open>pqA.processes[0]\<close> panics on an empty input.\<close>

definition pre_copies :: "Process list \<Rightarrow> Process list" where
  "pre_copies processes =
     foldl (\<lambda>q p. AddProcess (p\<lparr>RemainingTime := BurstDuration p\<rparr>) q) [] processes"

definition pre_init :: "(Process list \<Rightarrow> Process list) \<Rightarrow> Process list \<Rightarrow> panic + pre_state" where
  "pre_init srtA processes =
     (let pqA1 = srtA (pre_copies processes)
      in case index pqA1 0 of
           Inl e \<Rightarrow> Inl e
         | Inr p \<Rightarrow>
            (case RemoveProcess 0 pqA1 of
               Inl e \<Rightarrow> Inl e
             | Inr pqA2 \<Rightarrow>
                 Inr \<lparr> pre_totalWait = Finite 0, pre_totalTurnaround = Finite 0,
                       pre_schedule = replicate (length processes) None,
                       pre_currentTime = 0, pre_pqA = pqA2, pre_pq = AddProcess p [],
                       pre_process = p, pre_count = 0 \<rparr>))"

definition pre_finish :: "string \<Rightarrow> Process list \<Rightarrow> pre_state \<Rightarrow> out_call list" where
  "pre_finish title processes s =
     (let total = float64_of_int (int (length processes));
          aveWait = fdiv (pre_totalWait s) total;
          aveTurnaround = fdiv (pre_totalTurnaround s) total;
          aveThroughput = fdiv total (float64_of_int (CompleteTime (pre_process s)))
      in [OutputTitle title, OutputSchedule (pre_schedule s) aveWait aveTurnaround aveThroughput])"

definition preemptive ::
  "(Process list \<Rightarrow> Process list) \<Rightarrow> (Process list \<Rightarrow> Process list) \<Rightarrow> string \<Rightarrow>
   Process list \<Rightarrow> (panic + out_call list) option" where
  "preemptive srtA srt title processes =
     (case pre_init srtA processes of
        Inl e \<Rightarrow> Some (Inl e)
      | Inr s0 \<Rightarrow>
         (case pre_loop srt s0 of
            None \<Rightarrow> None
          | Some (Inl e) \<Rightarrow> Some (Inl e)
          | Some (Inr s) \<Rightarrow> Some (Inr (pre_finish title processes s))))"

text \<open>The two functions as the source has them, with the sort the library runs on a
  slice of at most twelve elements.\<close>

definition SJFSchedule :: "string \<Rightarrow> Process list \<Rightarrow> (panic + out_call list) option" where
  "SJFSchedule title processes = preemptive sortArrivalQueue sortDeployQueue title processes"

definition SJFPrioritySchedule :: "string \<Rightarrow> Process list \<Rightarrow> (panic + out_call list) option" where
  "SJFPrioritySchedule title processes =
     preemptive sortArrivalQueue sortPriorityQueue title processes"

section \<open>RRSchedule (lines 282-367)\<close>

record rr_state =
  rr_totalTurnaround :: float64
  rr_wait :: float64
  rr_lastCompletion :: float64
  rr_schedule :: "Row option list"
  rr_gantt :: "TimeSlice list"
  rr_queue :: "Process list"
  rr_serviceTime :: int
  rr_processes :: "Process list"

definition quantum_time :: int where
  "quantum_time = 2"

definition minimum :: "int \<Rightarrow> int \<Rightarrow> int" where
  "minimum x y = (if x < y then x else y)"

text \<open>The inner loop of lines 297-300: the heads of \<open>processes\<close> that have arrived by the
  service clock move to the back of the queue. It returns the queue and what is left of
  \<open>processes\<close>.\<close>

fun rr_admit :: "int \<Rightarrow> Process list \<Rightarrow> Process list \<Rightarrow> Process list \<times> Process list" where
  "rr_admit t queue [] = (queue, [])"
| "rr_admit t queue (p # ps) =
     (if ArrivalTime p \<le> t then rr_admit t (queue @ [p]) ps else (queue, p # ps))"

text \<open>One iteration of the outer loop (lines 296-355).\<close>

definition rr_body :: "rr_state \<Rightarrow> panic + rr_state" where
  "rr_body s =
     (case rr_admit (rr_serviceTime s) (rr_queue s) (rr_processes s) of
        (queue, processes) \<Rightarrow>
          (case queue of
             p # queue1 \<Rightarrow>
               (let waitingTime = (if int64 (rr_serviceTime s - ArrivalTime p) < 0 then 0
                                   else int64 (rr_serviceTime s - ArrivalTime p));
                    duration = minimum (BurstDuration p) quantum_time;
                    serviceTime = int64 (rr_serviceTime s + duration);
                    completionTime = serviceTime;
                    done = (duration = BurstDuration p);
                    queue2 = (if done then queue1
                              else queue1 @
                                [\<lparr> ProcessID = ProcessID p, ArrivalTime = serviceTime,
                                   BurstDuration = int64 (BurstDuration p - duration),
                                   Priority = Priority p, RemainingTime = 0, CompleteTime = 0,
                                   TurnAroundTime = 0, WaitTime = 0 \<rparr>])
                in case set_index (rr_schedule s) (int64 (ProcessID p - 1))
                          (Some \<lparr> row_ID = ProcessID p, row_Priority = Priority p,
                                  row_Burst = BurstDuration p, row_Arrival = ArrivalTime p,
                                  row_Wait = waitingTime,
                                  row_Turnaround = int64 (serviceTime - ArrivalTime p),
                                  row_Exit = completionTime \<rparr>) of
                     Inl e \<Rightarrow> Inl e
                   | Inr sch \<Rightarrow>
                       Inr \<lparr> rr_totalTurnaround =
                               (if done
                                then fadd (rr_totalTurnaround s)
                                       (float64_of_int (int64 (serviceTime - ArrivalTime p)))
                                else rr_totalTurnaround s),
                             rr_wait = fadd (rr_wait s) (float64_of_int waitingTime),
                             rr_lastCompletion =
                               (if done then float64_of_int serviceTime
                                else float64_of_int (int64 (serviceTime - duration))),
                             rr_schedule = sch,
                             rr_gantt = rr_gantt s @
                               [\<lparr> PID = ProcessID p, Start = int64 (serviceTime - duration),
                                  Stop = serviceTime \<rparr>],
                             rr_queue = queue2,
                             rr_serviceTime = serviceTime,
                             rr_processes = processes \<rparr>)
           | [] \<Rightarrow>
               (case index processes 0 of
                  Inl e \<Rightarrow> Inl e
                | Inr p \<Rightarrow>
                    Inr (s\<lparr> rr_queue := queue, rr_processes := processes,
                            rr_serviceTime := ArrivalTime p \<rparr>))))"

partial_function (option) rr_loop :: "rr_state \<Rightarrow> (panic + rr_state) option" where
  "rr_loop s =
     (if length (rr_queue s) > 0 \<or> length (rr_processes s) > 0 then
        (case rr_body s of Inl e \<Rightarrow> Some (Inl e) | Inr s' \<Rightarrow> rr_loop s')
      else Some (Inr s))"

declare rr_loop.simps [code]

definition rr_init :: "Process list \<Rightarrow> rr_state" where
  "rr_init processes =
     \<lparr> rr_totalTurnaround = Finite 0, rr_wait = Finite 0, rr_lastCompletion = Finite 0,
       rr_schedule = replicate (length processes) None, rr_gantt = [],
       rr_queue = [], rr_serviceTime = 0, rr_processes = processes \<rparr>"

definition rr_finish :: "string \<Rightarrow> rr_state \<Rightarrow> out_call list" where
  "rr_finish title s =
     (let count = float64_of_int (int (length (rr_schedule s)));
          aveTurnaround = fdiv (rr_totalTurnaround s) count;
          aveWait = fdiv (rr_wait s) count;
          aveThroughput = fdiv count (rr_lastCompletion s)
      in [OutputTitle title, OutputGantt (rr_gantt s),
          OutputSchedule (rr_schedule s) aveWait aveTurnaround aveThroughput])"

definition RRSchedule :: "string \<Rightarrow> Process list \<Rightarrow> (panic + out_call list) option" where
  "RRSchedule title processes =
     (case rr_loop (rr_init processes) of
        None \<Rightarrow> None
      | Some (Inl e) \<Rightarrow> Some (Inl e)
      | Some (Inr s) \<Rightarrow> Some (Inr (rr_finish title s)))"

section \<open>Inputs and observations\<close>

text \<open>A Process Descriptor as \<open>loadProcesses\<close> builds it (lines 444-452): the loaded
  fields set, the working fields zero.\<close>

definition descriptor :: "int \<Rightarrow> int \<Rightarrow> int \<Rightarrow> int \<Rightarrow> Process" where
  "descriptor pid arrival burst prio =
     \<lparr> ProcessID = pid, ArrivalTime = arrival, BurstDuration = burst, Priority = prio,
       RemainingTime = 0, CompleteTime = 0, TurnAroundTime = 0, WaitTime = 0 \<rparr>"

text \<open>The first \<open>n\<close> iterations of the loop of \<open>pre_loop\<close> (fewer when the loop ends
  before), to speak about the state at a given tick.\<close>

fun pre_ticks :: "nat \<Rightarrow> (Process list \<Rightarrow> Process list) \<Rightarrow> pre_state \<Rightarrow> panic + pre_state" where
  "pre_ticks 0 srt s = Inr s"
| "pre_ticks (Suc n) srt s =
     (if length (pre_pq s) > 0 then
        (case pre_tick srt s of Inl e \<Rightarrow> Inl e | Inr s' \<Rightarrow> pre_ticks n srt s')
      else Inr s)"

text \<open>What is seen of a state of the preemptive loop: the clock, the id of the running
  process, the ids and remaining times in the ready queue, the ids in the pending queue.\<close>

definition pre_view :: "pre_state \<Rightarrow> int \<times> int \<times> (int \<times> int) list \<times> int list" where
  "pre_view s =
     (pre_currentTime s, ProcessID (pre_process s),
      map (\<lambda>p. (ProcessID p, RemainingTime p)) (pre_pq s),
      map ProcessID (pre_pqA s))"

definition pre_view_after ::
  "nat \<Rightarrow> (Process list \<Rightarrow> Process list) \<Rightarrow> Process list \<Rightarrow>
   panic + int \<times> int \<times> (int \<times> int) list \<times> int list" where
  "pre_view_after n srt processes =
     (case pre_init sortArrivalQueue processes of
        Inl e \<Rightarrow> Inl e
      | Inr s0 \<Rightarrow> (case pre_ticks n srt s0 of Inl e \<Rightarrow> Inl e | Inr s \<Rightarrow> Inr (pre_view s)))"

text \<open>The table and the gantt chart among the output calls of a scheduler.\<close>

fun rows_of :: "out_call list \<Rightarrow> Row option list" where
  "rows_of [] = []"
| "rows_of (OutputSchedule rows w t th # cs) = rows"
| "rows_of (c # cs) = rows_of cs"

fun gantt_of :: "out_call list \<Rightarrow> TimeSlice list option" where
  "gantt_of [] = None"
| "gantt_of (OutputGantt g # cs) = Some g"
| "gantt_of (c # cs) = gantt_of cs"

section \<open>FCFS as the specification words it\<close>

text \<open>
  The service clock before iteration \<open>i\<close> accumulates the bursts of the processes
  before \<open>i\<close> in input order. \<open>carried_wait processes i\<close> is the waiting time held
  before iteration \<open>i\<close>: zero at the start, recomputed at an iteration whose process has
  a positive arrival time, kept as it is otherwise. The waiting time used at iteration
  \<open>i\<close> is \<open>carried_wait processes (Suc i)\<close>. The sums and differences are those of
  \<open>int64\<close>.
\<close>

fun service_before :: "Process list \<Rightarrow> nat \<Rightarrow> int" where
  "service_before processes 0 = 0"
| "service_before processes (Suc i) =
     int64 (service_before processes i + BurstDuration (processes ! i))"

fun carried_wait :: "Process list \<Rightarrow> nat \<Rightarrow> int" where
  "carried_wait processes 0 = 0"
| "carried_wait processes (Suc i) =
     (if ArrivalTime (processes ! i) > 0
      then int64 (service_before processes i - ArrivalTime (processes ! i))
      else carried_wait processes i)"

definition spec_row :: "Process list \<Rightarrow> nat \<Rightarrow> Row" where
  "spec_row processes i =
     (let p = processes ! i; wait = carried_wait processes (Suc i)
      in \<lparr> row_ID = ProcessID p, row_Priority = Priority p, row_Burst = BurstDuration p,
           row_Arrival = ArrivalTime p, row_Wait = wait,
           row_Turnaround = int64 (BurstDuration p + wait),
           row_Exit = int64 (ArrivalTime p + BurstDuration p + wait) \<rparr>)"

definition spec_slice :: "Process list \<Rightarrow> nat \<Rightarrow> TimeSlice" where
  "spec_slice processes i =
     (let p = processes ! i
      in \<lparr> PID = ProcessID p, Start = int64 (carried_wait processes (Suc i) + ArrivalTime p),
           Stop = service_before processes (Suc i) \<rparr>)"

section \<open>The keys of the ordering policies\<close>

definition keyArrival :: "Process \<Rightarrow> int \<times> int" where
  "keyArrival p = (ArrivalTime p, BurstDuration p)"

definition keyDeploy :: "Process \<Rightarrow> int \<times> int" where
  "keyDeploy p = (RemainingTime p, ArrivalTime p)"

definition keyPriority :: "Process \<Rightarrow> int \<times> int \<times> int" where
  "keyPriority p = (Priority p, BurstDuration p, ArrivalTime p)"

section \<open>Preemptive loop: the running process\<close>

text \<open>The process that runs in an iteration of the preemptive loop: the head of the ready
  queue when the previous one has finished, the current one otherwise; that process
  after the decrement of its remaining time; and what completing it records.\<close>

definition pre_running :: "pre_state \<Rightarrow> Process" where
  "pre_running s = (if RemainingTime (pre_process s) = 0 then hd (pre_pq s) else pre_process s)"

definition pre_ran :: "pre_state \<Rightarrow> Process" where
  "pre_ran s = (pre_running s)\<lparr>RemainingTime := int64 (RemainingTime (pre_running s) - 1)\<rparr>"

definition pre_completed :: "pre_state \<Rightarrow> Process" where
  "pre_completed s =
     (pre_ran s)\<lparr> CompleteTime := pre_currentTime s + 1,
                  TurnAroundTime := int64 (pre_currentTime s + 1 - ArrivalTime (pre_running s)),
                  WaitTime := int64 (int64 (pre_currentTime s + 1 - ArrivalTime (pre_running s))
                                     - BurstDuration (pre_running s)) \<rparr>"

section \<open>Two inputs of SJFSchedule\<close>

text \<open>The input of the textbook trace, and an input on which a completion and an arrival
  fall on the same clock; \<open>srtf_after n\<close> and \<open>overlap_after n\<close> are the states of
  \<open>SJFSchedule\<close> on them after \<open>n\<close> iterations.\<close>

definition srtf_input :: "Process list" where
  "srtf_input = [descriptor 1 0 8 0, descriptor 2 1 4 0, descriptor 3 2 9 0, descriptor 4 3 5 0]"

definition srtf_after :: "nat \<Rightarrow> pre_state" where
  "srtf_after n = projr (pre_ticks n sortDeployQueue (projr (pre_init sortArrivalQueue srtf_input)))"

definition overlap_input :: "Process list" where
  "overlap_input = [descriptor 1 0 2 0, descriptor 2 2 1 0]"

definition overlap_after :: "nat \<Rightarrow> pre_state" where
  "overlap_after n =
     projr (pre_ticks n sortDeployQueue (projr (pre_init sortArrivalQueue overlap_input)))"

section \<open>An input with a shared arrival time\<close>






section \<open>Arithmetic of int64\<close>

lemma int64_id: "is_int64 x \<Longrightarrow> int64 x = x"
  by (simp add: int64_def is_int64_def)

lemma is_int64_int64 [simp]: "is_int64 (int64 x)"
proof -
  have "0 \<le> (x + 9223372036854775808) mod 18446744073709551616"
    "(x + 9223372036854775808) mod 18446744073709551616 < 18446744073709551616"
    by simp_all
  then show ?thesis unfolding int64_def is_int64_def by linarith
qed

lemma int64_add_left [simp]: "int64 (int64 a + b) = int64 (a + b)"
proof -
  have "(int64 a + b + 9223372036854775808) mod 18446744073709551616
      = (a + b + 9223372036854775808) mod 18446744073709551616"
    unfolding int64_def by (simp add: algebra_simps mod_simps)
  then show ?thesis by (simp add: int64_def)
qed

lemma int64_add_right [simp]: "int64 (a + int64 b) = int64 (a + b)"
  using int64_add_left [of b a] by (simp add: add.commute)

lemma int64_le: "0 \<le> x \<Longrightarrow> int64 x \<le> x"
proof -
  assume x: "0 \<le> x"
  have "(x + 9223372036854775808) mod 18446744073709551616 \<le> x + 9223372036854775808"
    using x by (intro zmod_le_nonneg_dividend) simp
  then show ?thesis by (simp add: int64_def)
qed

section \<open>The ordering policies and the sort\<close>

lemma mset_bubble: "mset (bubble lt x acc) = add_mset x (mset acc)"
  by (induction acc) auto

lemma set_bubble: "set (bubble lt x acc) = insert x (set acc)"
  by (induction acc) auto

lemma mset_foldl_bubble:
  "mset (foldl (\<lambda>acc x. bubble lt x acc) acc xs) = mset acc + mset xs"
  by (induction xs arbitrary: acc) (auto simp: mset_bubble)

lemma mset_sortSlice: "mset (sortSlice lt xs) = mset xs"
  by (simp add: sortSlice_def mset_foldl_bubble)

text \<open>The reversed prefix stays in descending order of the key when \<open>lt\<close> compares
  keys of a linear order.\<close>

lemma desc_bubble:
  fixes f :: "'a \<Rightarrow> 'k::linorder"
  assumes lt: "\<And>a b. lt a b \<longleftrightarrow> f a < f b"
  shows "sorted_wrt (\<lambda>a b. f b \<le> f a) acc \<Longrightarrow>
         sorted_wrt (\<lambda>a b. f b \<le> f a) (bubble lt x acc)"
  by (induction acc) (auto simp: lt set_bubble)

lemma desc_foldl_bubble:
  fixes f :: "'a \<Rightarrow> 'k::linorder"
  assumes lt: "\<And>a b. lt a b \<longleftrightarrow> f a < f b"
  shows "sorted_wrt (\<lambda>a b. f b \<le> f a) acc \<Longrightarrow>
         sorted_wrt (\<lambda>a b. f b \<le> f a) (foldl (\<lambda>acc x. bubble lt x acc) acc xs)"
  by (induction xs arbitrary: acc) (auto simp: desc_bubble [OF lt])

lemma sorts_by_sortSlice:
  fixes f :: "'a \<Rightarrow> 'k::linorder"
  assumes lt: "\<And>a b. lt a b \<longleftrightarrow> f a < f b"
  shows "sorts_by lt (sortSlice lt)"
proof -
  have "sorted_wrt (\<lambda>a b. \<not> lt b a) (sortSlice lt xs)" for xs
  proof -
    have "sorted_wrt (\<lambda>a b. f b \<le> f a) (foldl (\<lambda>acc x. bubble lt x acc) [] xs)"
      by (rule desc_foldl_bubble [OF lt]) simp
    then have "sorted_wrt (\<lambda>a b. f a \<le> f b) (sortSlice lt xs)"
      by (simp add: sortSlice_def sorted_wrt_rev)
    then show ?thesis by (simp add: lt not_less)
  qed
  then show ?thesis by (simp add: sorts_by_def mset_sortSlice)
qed

lemma lessArrival_key: "lessArrival a b \<longleftrightarrow> keyArrival a < keyArrival b"
  by (auto simp: lessArrival_def keyArrival_def)

lemma lessDeploy_key: "lessDeploy a b \<longleftrightarrow> keyDeploy a < keyDeploy b"
  by (auto simp: lessDeploy_def keyDeploy_def)

lemma lessPriority_key: "lessPriority a b \<longleftrightarrow> keyPriority a < keyPriority b"
  by (auto simp: lessPriority_def keyPriority_def)

lemma sorts_by_sortArrivalQueue: "sorts_by lessArrival sortArrivalQueue"
  unfolding sortArrivalQueue_def [abs_def]
  by (rule sorts_by_sortSlice [of lessArrival keyArrival]) (rule lessArrival_key)

lemma sorts_by_sortDeployQueue: "sorts_by lessDeploy sortDeployQueue"
  unfolding sortDeployQueue_def [abs_def]
  by (rule sorts_by_sortSlice [of lessDeploy keyDeploy]) (rule lessDeploy_key)

lemma sorts_by_sortPriorityQueue: "sorts_by lessPriority sortPriorityQueue"
  unfolding sortPriorityQueue_def [abs_def]
  by (rule sorts_by_sortSlice [of lessPriority keyPriority]) (rule lessPriority_key)

lemma sorts_by_mset: "sorts_by lt srt \<Longrightarrow> mset (srt xs) = mset xs"
  by (simp add: sorts_by_def)

lemma sorts_by_set: "sorts_by lt srt \<Longrightarrow> set (srt xs) = set xs"
  by (metis sorts_by_mset set_mset_mset)

lemma sorts_by_length: "sorts_by lt srt \<Longrightarrow> length (srt xs) = length xs"
  by (metis sorts_by_mset size_mset)

text \<open>A sort by a comparator of keys puts the keys in their one ascending order.\<close>

lemma sorts_by_keys:
  fixes f :: "'a \<Rightarrow> 'k::linorder"
  assumes lt: "\<And>a b. lt a b \<longleftrightarrow> f a < f b" and s: "sorts_by lt srt"
  shows "map f (srt xs) = sort (map f xs)"
proof -
  from s have "sorted_wrt (\<lambda>a b. \<not> lt b a) (srt xs)" by (simp add: sorts_by_def)
  then have "sorted_wrt (\<lambda>a b. f a \<le> f b) (srt xs)" by (simp add: lt not_less)
  then have "sorted (map f (srt xs))" by (simp add: sorted_map)
  moreover have "mset (map f (srt xs)) = mset (map f xs)"
    using sorts_by_mset [OF s, of xs] by simp
  ultimately show ?thesis by (metis properties_for_sort)
qed

text \<open>
  C6, as the claim states it, fails: the policies are not total orders of processes. Two
  processes that differ in their id only are different, and neither is less than the
  other under any of the three comparators.
\<close>

theorem C6_ordering_policies_counterexample:
  "descriptor 1 0 5 0 \<noteq> descriptor 2 0 5 0
   \<and> \<not> lessArrival (descriptor 1 0 5 0) (descriptor 2 0 5 0)
   \<and> \<not> lessArrival (descriptor 2 0 5 0) (descriptor 1 0 5 0)
   \<and> \<not> lessDeploy (descriptor 1 0 5 0) (descriptor 2 0 5 0)
   \<and> \<not> lessDeploy (descriptor 2 0 5 0) (descriptor 1 0 5 0)
   \<and> \<not> lessPriority (descriptor 1 0 5 0) (descriptor 2 0 5 0)
   \<and> \<not> lessPriority (descriptor 2 0 5 0) (descriptor 1 0 5 0)"
  by (simp add: descriptor_def lessArrival_def lessDeploy_def lessPriority_def)

text \<open>
  C6, amended. Each comparator is the strict lexicographic order of its tuple of keys:
  (arrival time, burst duration) for the arrival order, (remaining time, arrival time)
  for the remaining-time order, (priority, burst duration, arrival time) for the priority
  order. So of two processes with different key tuples exactly one is less than the
  other, and two processes with the same key tuple are tied: neither is less. Every sort
  by such a comparator, whatever it does with ties, returns its argument rearranged with
  the key tuples in their ascending order, and the insertion sort of the model is such a
  sort. The comparators are functions of their two arguments to a truth value: they
  change no process.
\<close>

theorem C6_ordering_policies:
  "(lessArrival a b \<longleftrightarrow> (ArrivalTime a, BurstDuration a) < (ArrivalTime b, BurstDuration b))
   \<and> (lessDeploy a b \<longleftrightarrow> (RemainingTime a, ArrivalTime a) < (RemainingTime b, ArrivalTime b))
   \<and> (lessPriority a b \<longleftrightarrow>
        (Priority a, BurstDuration a, ArrivalTime a) < (Priority b, BurstDuration b, ArrivalTime b))
   \<and> (keyArrival a \<noteq> keyArrival b \<longrightarrow> lessArrival a b \<noteq> lessArrival b a)
   \<and> (keyDeploy a \<noteq> keyDeploy b \<longrightarrow> lessDeploy a b \<noteq> lessDeploy b a)
   \<and> (keyPriority a \<noteq> keyPriority b \<longrightarrow> lessPriority a b \<noteq> lessPriority b a)
   \<and> (keyArrival a = keyArrival b \<longrightarrow> \<not> lessArrival a b \<and> \<not> lessArrival b a)
   \<and> (keyDeploy a = keyDeploy b \<longrightarrow> \<not> lessDeploy a b \<and> \<not> lessDeploy b a)
   \<and> (keyPriority a = keyPriority b \<longrightarrow> \<not> lessPriority a b \<and> \<not> lessPriority b a)
   \<and> (sorts_by lessArrival srtA \<longrightarrow>
        mset (srtA pq) = mset pq \<and> map keyArrival (srtA pq) = sort (map keyArrival pq))
   \<and> (sorts_by lessDeploy srtD \<longrightarrow>
        mset (srtD pq) = mset pq \<and> map keyDeploy (srtD pq) = sort (map keyDeploy pq))
   \<and> (sorts_by lessPriority srtP \<longrightarrow>
        mset (srtP pq) = mset pq \<and> map keyPriority (srtP pq) = sort (map keyPriority pq))
   \<and> sorts_by lessArrival sortArrivalQueue
   \<and> sorts_by lessDeploy sortDeployQueue
   \<and> sorts_by lessPriority sortPriorityQueue"
proof -
  have k: "(lessArrival a b \<longleftrightarrow> (ArrivalTime a, BurstDuration a) < (ArrivalTime b, BurstDuration b))"
    "(lessDeploy a b \<longleftrightarrow> (RemainingTime a, ArrivalTime a) < (RemainingTime b, ArrivalTime b))"
    "(lessPriority a b \<longleftrightarrow>
        (Priority a, BurstDuration a, ArrivalTime a) < (Priority b, BurstDuration b, ArrivalTime b))"
    using lessArrival_key [of a b] lessDeploy_key [of a b] lessPriority_key [of a b]
    by (simp_all add: keyArrival_def keyDeploy_def keyPriority_def)
  have t: "keyArrival a \<noteq> keyArrival b \<longrightarrow> lessArrival a b \<noteq> lessArrival b a"
    "keyDeploy a \<noteq> keyDeploy b \<longrightarrow> lessDeploy a b \<noteq> lessDeploy b a"
    "keyPriority a \<noteq> keyPriority b \<longrightarrow> lessPriority a b \<noteq> lessPriority b a"
    unfolding lessArrival_key lessDeploy_key lessPriority_key by auto
  have e: "keyArrival a = keyArrival b \<longrightarrow> \<not> lessArrival a b \<and> \<not> lessArrival b a"
    "keyDeploy a = keyDeploy b \<longrightarrow> \<not> lessDeploy a b \<and> \<not> lessDeploy b a"
    "keyPriority a = keyPriority b \<longrightarrow> \<not> lessPriority a b \<and> \<not> lessPriority b a"
    unfolding lessArrival_key lessDeploy_key lessPriority_key by auto
  have s: "sorts_by lessArrival srtA \<longrightarrow>
        mset (srtA pq) = mset pq \<and> map keyArrival (srtA pq) = sort (map keyArrival pq)"
    "sorts_by lessDeploy srtD \<longrightarrow>
        mset (srtD pq) = mset pq \<and> map keyDeploy (srtD pq) = sort (map keyDeploy pq)"
    "sorts_by lessPriority srtP \<longrightarrow>
        mset (srtP pq) = mset pq \<and> map keyPriority (srtP pq) = sort (map keyPriority pq)"
    using sorts_by_keys [of lessArrival keyArrival srtA pq, OF lessArrival_key]
      sorts_by_keys [of lessDeploy keyDeploy srtD pq, OF lessDeploy_key]
      sorts_by_keys [of lessPriority keyPriority srtP pq, OF lessPriority_key]
    by (simp_all add: sorts_by_mset)
  show ?thesis
    by (intro conjI k t e s sorts_by_sortArrivalQueue sorts_by_sortDeployQueue
        sorts_by_sortPriorityQueue)
qed

theorem C6_ordering_policies_witness:
  "keyArrival (descriptor 1 0 5 0) \<noteq> keyArrival (descriptor 2 0 3 0)
   \<and> lessArrival (descriptor 2 0 3 0) (descriptor 1 0 5 0)
   \<and> \<not> lessArrival (descriptor 1 0 5 0) (descriptor 2 0 3 0)
   \<and> keyDeploy (descriptor 1 0 5 0) = keyDeploy (descriptor 2 0 3 0)
   \<and> \<not> lessDeploy (descriptor 1 0 5 0) (descriptor 2 0 3 0)
   \<and> \<not> lessDeploy (descriptor 2 0 3 0) (descriptor 1 0 5 0)
   \<and> keyPriority (descriptor 1 0 5 0) \<noteq> keyPriority (descriptor 2 0 3 0)
   \<and> lessPriority (descriptor 2 0 3 0) (descriptor 1 0 5 0)
   \<and> sorts_by lessArrival sortArrivalQueue
   \<and> sorts_by lessDeploy sortDeployQueue
   \<and> sorts_by lessPriority sortPriorityQueue
   \<and> map keyArrival (sortArrivalQueue [descriptor 1 1 5 0, descriptor 2 0 3 0, descriptor 3 0 2 1])
       = [(0, 2), (0, 3), (1, 5)]
   \<and> map keyDeploy (sortDeployQueue [descriptor 1 1 5 0, descriptor 2 0 3 0, descriptor 3 0 2 1])
       = [(0, 0), (0, 0), (0, 1)]
   \<and> map keyPriority (sortPriorityQueue [descriptor 1 1 5 0, descriptor 2 0 3 0, descriptor 3 0 2 1])
       = [(0, 3, 0), (0, 5, 1), (1, 2, 0)]"
proof -
  let ?a = "descriptor 1 0 5 0" and ?b = "descriptor 2 0 3 0"
  let ?pq = "[descriptor 1 1 5 0, descriptor 2 0 3 0, descriptor 3 0 2 1]"
  note T = C6_ordering_policies [of ?a ?b sortArrivalQueue ?pq sortDeployQueue sortPriorityQueue]
  have h1: "keyArrival ?a \<noteq> keyArrival ?b" by (simp add: keyArrival_def descriptor_def)
  have h2: "keyDeploy ?a = keyDeploy ?b" by (simp add: keyDeploy_def descriptor_def)
  have h3: "keyPriority ?a \<noteq> keyPriority ?b" by (simp add: keyPriority_def descriptor_def)
  have n1: "\<not> lessArrival ?a ?b" by (simp add: lessArrival_def descriptor_def)
  have n3: "\<not> lessPriority ?a ?b" by (simp add: lessPriority_def descriptor_def)
  from T h1 n1 have c1: "lessArrival ?b ?a" by blast
  from T h2 have c2: "\<not> lessDeploy ?a ?b" "\<not> lessDeploy ?b ?a" by blast+
  from T h3 n3 have c3: "lessPriority ?b ?a" by blast
  from T have s: "sorts_by lessArrival sortArrivalQueue" "sorts_by lessDeploy sortDeployQueue"
    "sorts_by lessPriority sortPriorityQueue" by blast+
  have k1: "sort (map keyArrival ?pq) = [(0, 2), (0, 3), (1, 5)]"
    by (simp add: keyArrival_def descriptor_def)
  have k2: "sort (map keyDeploy ?pq) = [(0, 0), (0, 0), (0, 1)]"
    by (simp add: keyDeploy_def descriptor_def)
  have k3: "sort (map keyPriority ?pq) = [(0, 3, 0), (0, 5, 1), (1, 2, 0)]"
    by (simp add: keyPriority_def descriptor_def)
  from T s k1 have d1: "map keyArrival (sortArrivalQueue ?pq) = [(0, 2), (0, 3), (1, 5)]" by simp
  from T s k2 have d2: "map keyDeploy (sortDeployQueue ?pq) = [(0, 0), (0, 0), (0, 1)]" by simp
  from T s k3 have d3: "map keyPriority (sortPriorityQueue ?pq) = [(0, 3, 0), (0, 5, 1), (1, 2, 0)]"
    by simp
  show ?thesis
    by (intro conjI) (fact h1 h2 h3 n1 c1 c2 c3 s d1 d2 d3)+
qed

section \<open>The preemptive loop, case by case\<close>

lemma scan_None: "scan t ps i = None \<longleftrightarrow> (\<forall>p \<in> set ps. ArrivalTime p \<noteq> t)"
  by (induction ps arbitrary: i) auto

lemma scan_Some:
  "scan t ps i0 = Some (i, p) \<Longrightarrow>
     i0 \<le> i \<and> i - i0 < length ps \<and> ps ! (i - i0) = p \<and> ArrivalTime p = t \<and>
     (\<forall>j < i - i0. ArrivalTime (ps ! j) \<noteq> t)"
proof (induction ps arbitrary: i0)
  case Nil
  then show ?case by simp
next
  case (Cons a ps)
  show ?case
  proof (cases "ArrivalTime a = t")
    case True
    with Cons.prems show ?thesis by simp
  next
    case False
    with Cons.prems have "scan t ps (Suc i0) = Some (i, p)" by simp
    from Cons.IH [OF this] have IH: "Suc i0 \<le> i" "i - Suc i0 < length ps"
      "ps ! (i - Suc i0) = p" "ArrivalTime p = t" "\<forall>j < i - Suc i0. ArrivalTime (ps ! j) \<noteq> t"
      by simp_all
    from IH(1) obtain d where d: "i - i0 = Suc d" "i - Suc i0 = d"
      by (metis Suc_diff_Suc Suc_le_lessD)
    show ?thesis
      using IH False unfolding d by (auto simp: less_Suc_eq_0_disj)
  qed
qed

lemma RemoveProcess_0: "xs \<noteq> [] \<Longrightarrow> RemoveProcess 0 xs = Inr (tl xs)"
  by (cases xs) (simp_all add: RemoveProcess_def)

lemma RemoveProcess_in:
  "i < length xs \<Longrightarrow> RemoveProcess i xs = Inr (take i xs @ drop (Suc i) xs)"
  by (simp add: RemoveProcess_def)


lemma pre_tick_running:
  "pre_pq s \<noteq> [] \<Longrightarrow>
   (if RemainingTime (pre_process s) = 0 then index (pre_pq s) 0 else Inr (pre_process s))
     = Inr (pre_running s)"
  by (cases "pre_pq s") (simp_all add: index_def pre_running_def)

lemma pre_tick_complete:
  assumes "pre_pq s \<noteq> []" "RemainingTime (pre_ran s) = 0"
  shows "pre_tick srt s =
     (if 0 \<le> pre_count s \<and> pre_count s < int (length (pre_schedule s)) then
        Inr (s\<lparr> pre_totalWait :=
                  fadd (pre_totalWait s) (float64_of_int (WaitTime (pre_completed s))),
                pre_totalTurnaround :=
                  fadd (pre_totalTurnaround s) (float64_of_int (TurnAroundTime (pre_completed s))),
                pre_schedule := (pre_schedule s)[nat (pre_count s) := Some (row_of (pre_completed s))],
                pre_currentTime := pre_currentTime s + 1,
                pre_pq := tl (pre_pq s),
                pre_process := pre_completed s,
                pre_count := pre_count s + 1 \<rparr>)
      else Inl IndexOutOfRange)"
  unfolding pre_tick_def pre_tick_running [OF assms(1)]
  using assms
  by (simp add: Let_def set_index_def RemoveProcess_0 pre_completed_def pre_ran_def)

lemma pre_tick_run:
  assumes "pre_pq s \<noteq> []" "RemainingTime (pre_ran s) \<noteq> 0"
    "scan (pre_currentTime s + 1) (pre_pqA s) 0 = None"
  shows "pre_tick srt s = Inr (s\<lparr> pre_currentTime := pre_currentTime s + 1, pre_process := pre_ran s \<rparr>)"
  unfolding pre_tick_def pre_tick_running [OF assms(1)]
  using assms
  by (simp add: Let_def pre_ran_def)

lemma pre_tick_arrive:
  assumes "pre_pq s \<noteq> []" "RemainingTime (pre_ran s) \<noteq> 0"
    "scan (pre_currentTime s + 1) (pre_pqA s) 0 = Some (i, p)"
  shows "pre_tick srt s =
     (if srt (tl (pre_pq s) @ [p, pre_ran s]) = [] then Inl IndexOutOfRange
      else Inr (s\<lparr> pre_currentTime := pre_currentTime s + 1,
                   pre_pqA := take i (pre_pqA s) @ drop (Suc i) (pre_pqA s),
                   pre_pq := srt (tl (pre_pq s) @ [p, pre_ran s]),
                   pre_process := hd (srt (tl (pre_pq s) @ [p, pre_ran s])) \<rparr>))"
proof -
  from scan_Some [OF assms(3)] have i: "i < length (pre_pqA s)" by simp
  have r0: "RemoveProcess 0 (pre_pq s) = Inr (tl (pre_pq s))"
    by (rule RemoveProcess_0) fact
  have ri: "RemoveProcess i (pre_pqA s) = Inr (take i (pre_pqA s) @ drop (Suc i) (pre_pqA s))"
    by (rule RemoveProcess_in) fact
  show ?thesis
    unfolding pre_tick_def pre_tick_running [OF assms(1)]
    using assms(2,3)
    by (cases "srt (tl (pre_pq s) @ [p, pre_ran s])")
       (simp_all add: Let_def r0 ri AddProcess_def pre_ran_def index_def)
qed



text \<open>The loop returns when an invariant lets every iteration go on without panic and
  a measure decreases.\<close>

lemma pre_loop_total:
  fixes m :: "pre_state \<Rightarrow> nat"
  assumes "I s"
    and step: "\<And>s. I s \<Longrightarrow> pre_pq s \<noteq> [] \<Longrightarrow> \<exists>s'. pre_tick srt s = Inr s' \<and> I s' \<and> m s' < m s"
  shows "\<exists>s'. pre_loop srt s = Some (Inr s') \<and> I s' \<and> pre_pq s' = []"
  using assms(1)
proof (induction "m s" arbitrary: s rule: less_induct)
  case less
  show ?case
  proof (cases "pre_pq s = []")
    case True
    then have "pre_loop srt s = Some (Inr s)" by (subst pre_loop.simps) simp
    with True less.prems show ?thesis by auto
  next
    case False
    from step [OF less.prems False] obtain s1 where
      s1: "pre_tick srt s = Inr s1" "I s1" "m s1 < m s" by blast
    from less.hyps [OF s1(3) s1(2)] obtain s' where
      "pre_loop srt s1 = Some (Inr s')" "I s'" "pre_pq s' = []" by blast
    moreover have "pre_loop srt s = pre_loop srt s1"
      using False s1(1) by (subst pre_loop.simps) simp
    ultimately show ?thesis by auto
  qed
qed

section \<open>Concrete runs\<close>

text \<open>
  C3. On the input (1, arrival 0, burst 8), (2, arrival 1, burst 4), (3, arrival 2,
  burst 9), (4, arrival 3, burst 5), \<open>SJFSchedule\<close> starts with process 1; after the
  first tick the clock is 1, process 2 has been admitted and runs, and process 1 waits in
  the ready queue with 7 ticks left. After the fifth tick process 2 has gone from the
  ready queue: its last tick was decremented to zero and its completion recorded at
  clock 5 in the same iteration. The table holds the completion times 5, 10, 17 and 26
  for the processes 2, 4, 1 and 3.

  The order of operations within a tick, on every state with a process in the ready
  queue: the remaining time of the running process is decremented first (\<open>pre_ran\<close>).
  When the decremented remaining time is zero, the tick records the completion at the
  advanced clock and ends there: the pending queue is left as it is, also when a pending
  process arrives at that clock. Only when it is not zero does the arrival scan run, at
  the advanced clock.
\<close>

theorem C3_srtf_trace:
  "pre_view_after 0 sortDeployQueue
     [descriptor 1 0 8 0, descriptor 2 1 4 0, descriptor 3 2 9 0, descriptor 4 3 5 0]
     = Inr (0, 1, [(1, 8)], [2, 3, 4])
   \<and> pre_view_after 1 sortDeployQueue
     [descriptor 1 0 8 0, descriptor 2 1 4 0, descriptor 3 2 9 0, descriptor 4 3 5 0]
     = Inr (1, 2, [(2, 4), (1, 7)], [3, 4])
   \<and> pre_view_after 4 sortDeployQueue
     [descriptor 1 0 8 0, descriptor 2 1 4 0, descriptor 3 2 9 0, descriptor 4 3 5 0]
     = Inr (4, 2, [(2, 2), (4, 5), (1, 7), (3, 9)], [])
   \<and> pre_view_after 5 sortDeployQueue
     [descriptor 1 0 8 0, descriptor 2 1 4 0, descriptor 3 2 9 0, descriptor 4 3 5 0]
     = Inr (5, 2, [(4, 5), (1, 7), (3, 9)], [])
   \<and> SJFSchedule ''Shortest-job-first''
     [descriptor 1 0 8 0, descriptor 2 1 4 0, descriptor 3 2 9 0, descriptor 4 3 5 0]
     = Some (Inr
        [OutputTitle ''Shortest-job-first'',
         OutputSchedule
          [Some \<lparr>row_ID = 2, row_Priority = 0, row_Burst = 4, row_Arrival = 1,
                  row_Wait = 0, row_Turnaround = 4, row_Exit = 5\<rparr>,
           Some \<lparr>row_ID = 4, row_Priority = 0, row_Burst = 5, row_Arrival = 3,
                  row_Wait = 2, row_Turnaround = 7, row_Exit = 10\<rparr>,
           Some \<lparr>row_ID = 1, row_Priority = 0, row_Burst = 8, row_Arrival = 0,
                  row_Wait = 9, row_Turnaround = 17, row_Exit = 17\<rparr>,
           Some \<lparr>row_ID = 3, row_Priority = 0, row_Burst = 9, row_Arrival = 2,
                  row_Wait = 15, row_Turnaround = 24, row_Exit = 26\<rparr>]
          (Finite (13 / 2)) (Finite 13) (Finite (1385722962267845 / 9007199254740992))])
   \<and> (pre_pq s \<noteq> [] \<and> RemainingTime (pre_ran s) = 0 \<longrightarrow>
        pre_tick srt s =
          (if 0 \<le> pre_count s \<and> pre_count s < int (length (pre_schedule s)) then
             Inr (s\<lparr> pre_totalWait :=
                       fadd (pre_totalWait s) (float64_of_int (WaitTime (pre_completed s))),
                     pre_totalTurnaround :=
                       fadd (pre_totalTurnaround s)
                         (float64_of_int (TurnAroundTime (pre_completed s))),
                     pre_schedule :=
                       (pre_schedule s)[nat (pre_count s) := Some (row_of (pre_completed s))],
                     pre_currentTime := pre_currentTime s + 1,
                     pre_pq := tl (pre_pq s),
                     pre_process := pre_completed s,
                     pre_count := pre_count s + 1 \<rparr>)
           else Inl IndexOutOfRange))
   \<and> (pre_pq s \<noteq> [] \<and> RemainingTime (pre_ran s) \<noteq> 0 \<and>
        scan (pre_currentTime s + 1) (pre_pqA s) 0 = None \<longrightarrow>
        pre_tick srt s =
          Inr (s\<lparr> pre_currentTime := pre_currentTime s + 1, pre_process := pre_ran s \<rparr>))
   \<and> (pre_pq s \<noteq> [] \<and> RemainingTime (pre_ran s) \<noteq> 0 \<and>
        scan (pre_currentTime s + 1) (pre_pqA s) 0 = Some (i, p) \<longrightarrow>
        pre_tick srt s =
          (if srt (tl (pre_pq s) @ [p, pre_ran s]) = [] then Inl IndexOutOfRange
           else Inr (s\<lparr> pre_currentTime := pre_currentTime s + 1,
                        pre_pqA := take i (pre_pqA s) @ drop (Suc i) (pre_pqA s),
                        pre_pq := srt (tl (pre_pq s) @ [p, pre_ran s]),
                        pre_process := hd (srt (tl (pre_pq s) @ [p, pre_ran s])) \<rparr>))
        \<and> i < length (pre_pqA s) \<and> pre_pqA s ! i = p
        \<and> ArrivalTime p = pre_currentTime s + 1
        \<and> (\<forall>j < i. ArrivalTime (pre_pqA s ! j) \<noteq> pre_currentTime s + 1))"
proof -
  have a: "pre_view_after 0 sortDeployQueue
     [descriptor 1 0 8 0, descriptor 2 1 4 0, descriptor 3 2 9 0, descriptor 4 3 5 0]
     = Inr (0, 1, [(1, 8)], [2, 3, 4])" by code_simp
  have b: "pre_view_after 1 sortDeployQueue
     [descriptor 1 0 8 0, descriptor 2 1 4 0, descriptor 3 2 9 0, descriptor 4 3 5 0]
     = Inr (1, 2, [(2, 4), (1, 7)], [3, 4])" by code_simp
  have c: "pre_view_after 4 sortDeployQueue
     [descriptor 1 0 8 0, descriptor 2 1 4 0, descriptor 3 2 9 0, descriptor 4 3 5 0]
     = Inr (4, 2, [(2, 2), (4, 5), (1, 7), (3, 9)], [])" by code_simp
  have d: "pre_view_after 5 sortDeployQueue
     [descriptor 1 0 8 0, descriptor 2 1 4 0, descriptor 3 2 9 0, descriptor 4 3 5 0]
     = Inr (5, 2, [(4, 5), (1, 7), (3, 9)], [])" by code_simp
  have e: "SJFSchedule ''Shortest-job-first''
     [descriptor 1 0 8 0, descriptor 2 1 4 0, descriptor 3 2 9 0, descriptor 4 3 5 0]
     = Some (Inr
        [OutputTitle ''Shortest-job-first'',
         OutputSchedule
          [Some \<lparr>row_ID = 2, row_Priority = 0, row_Burst = 4, row_Arrival = 1,
                  row_Wait = 0, row_Turnaround = 4, row_Exit = 5\<rparr>,
           Some \<lparr>row_ID = 4, row_Priority = 0, row_Burst = 5, row_Arrival = 3,
                  row_Wait = 2, row_Turnaround = 7, row_Exit = 10\<rparr>,
           Some \<lparr>row_ID = 1, row_Priority = 0, row_Burst = 8, row_Arrival = 0,
                  row_Wait = 9, row_Turnaround = 17, row_Exit = 17\<rparr>,
           Some \<lparr>row_ID = 3, row_Priority = 0, row_Burst = 9, row_Arrival = 2,
                  row_Wait = 15, row_Turnaround = 24, row_Exit = 26\<rparr>]
          (Finite (13 / 2)) (Finite 13) (Finite (1385722962267845 / 9007199254740992))])"
    by code_simp
  have g1: "pre_pq s \<noteq> [] \<and> RemainingTime (pre_ran s) = 0 \<longrightarrow>
        pre_tick srt s =
          (if 0 \<le> pre_count s \<and> pre_count s < int (length (pre_schedule s)) then
             Inr (s\<lparr> pre_totalWait :=
                       fadd (pre_totalWait s) (float64_of_int (WaitTime (pre_completed s))),
                     pre_totalTurnaround :=
                       fadd (pre_totalTurnaround s)
                         (float64_of_int (TurnAroundTime (pre_completed s))),
                     pre_schedule :=
                       (pre_schedule s)[nat (pre_count s) := Some (row_of (pre_completed s))],
                     pre_currentTime := pre_currentTime s + 1,
                     pre_pq := tl (pre_pq s),
                     pre_process := pre_completed s,
                     pre_count := pre_count s + 1 \<rparr>)
           else Inl IndexOutOfRange)"
    using pre_tick_complete [of s srt] by blast
  have g2: "pre_pq s \<noteq> [] \<and> RemainingTime (pre_ran s) \<noteq> 0 \<and>
        scan (pre_currentTime s + 1) (pre_pqA s) 0 = None \<longrightarrow>
        pre_tick srt s =
          Inr (s\<lparr> pre_currentTime := pre_currentTime s + 1, pre_process := pre_ran s \<rparr>)"
    using pre_tick_run [of s srt] by blast
  have g3: "pre_pq s \<noteq> [] \<and> RemainingTime (pre_ran s) \<noteq> 0 \<and>
        scan (pre_currentTime s + 1) (pre_pqA s) 0 = Some (i, p) \<longrightarrow>
        pre_tick srt s =
          (if srt (tl (pre_pq s) @ [p, pre_ran s]) = [] then Inl IndexOutOfRange
           else Inr (s\<lparr> pre_currentTime := pre_currentTime s + 1,
                        pre_pqA := take i (pre_pqA s) @ drop (Suc i) (pre_pqA s),
                        pre_pq := srt (tl (pre_pq s) @ [p, pre_ran s]),
                        pre_process := hd (srt (tl (pre_pq s) @ [p, pre_ran s])) \<rparr>))
        \<and> i < length (pre_pqA s) \<and> pre_pqA s ! i = p
        \<and> ArrivalTime p = pre_currentTime s + 1
        \<and> (\<forall>j < i. ArrivalTime (pre_pqA s ! j) \<noteq> pre_currentTime s + 1)"
  proof (intro impI, elim conjE)
    assume h: "pre_pq s \<noteq> []" "RemainingTime (pre_ran s) \<noteq> 0"
      "scan (pre_currentTime s + 1) (pre_pqA s) 0 = Some (i, p)"
    from scan_Some [OF h(3)] have
      "i < length (pre_pqA s) \<and> pre_pqA s ! i = p \<and> ArrivalTime p = pre_currentTime s + 1
        \<and> (\<forall>j < i. ArrivalTime (pre_pqA s ! j) \<noteq> pre_currentTime s + 1)"
      by simp
    with pre_tick_arrive [OF h, of srt] show
      "pre_tick srt s =
          (if srt (tl (pre_pq s) @ [p, pre_ran s]) = [] then Inl IndexOutOfRange
           else Inr (s\<lparr> pre_currentTime := pre_currentTime s + 1,
                        pre_pqA := take i (pre_pqA s) @ drop (Suc i) (pre_pqA s),
                        pre_pq := srt (tl (pre_pq s) @ [p, pre_ran s]),
                        pre_process := hd (srt (tl (pre_pq s) @ [p, pre_ran s])) \<rparr>))
        \<and> i < length (pre_pqA s) \<and> pre_pqA s ! i = p
        \<and> ArrivalTime p = pre_currentTime s + 1
        \<and> (\<forall>j < i. ArrivalTime (pre_pqA s ! j) \<noteq> pre_currentTime s + 1)"
      by simp
  qed
  show ?thesis
    by (intro conjI a b c d e g1 g2 g3)
qed

text \<open>The three cases on states of \<open>SJFSchedule\<close>: on the input (1, arrival 0, burst 2),
  (2, arrival 2, burst 1) the second tick completes process 1 at clock 2 and leaves
  process 2, which arrives at clock 2, in the pending queue; on the input of the trace
  the fourth tick finds no arrival, and the first tick admits process 2.\<close>

theorem C3_srtf_trace_witness:
  "pre_pq (overlap_after 1) \<noteq> []
   \<and> RemainingTime (pre_ran (overlap_after 1)) = 0
   \<and> map ProcessID (pre_pqA (overlap_after 1)) = [2]
   \<and> map ArrivalTime (pre_pqA (overlap_after 1)) = [pre_currentTime (overlap_after 1) + 1]
   \<and> pre_tick sortDeployQueue (overlap_after 1) =
        Inr ((overlap_after 1)
          \<lparr> pre_totalWait := Finite 0,
            pre_totalTurnaround := Finite 2,
            pre_schedule :=
              [Some \<lparr>row_ID = 1, row_Priority = 0, row_Burst = 2, row_Arrival = 0,
                      row_Wait = 0, row_Turnaround = 2, row_Exit = 2\<rparr>, None],
            pre_currentTime := 2,
            pre_pq := [],
            pre_process := pre_completed (overlap_after 1),
            pre_count := 1 \<rparr>)
   \<and> pre_pq (srtf_after 3) \<noteq> []
   \<and> RemainingTime (pre_ran (srtf_after 3)) \<noteq> 0
   \<and> scan (pre_currentTime (srtf_after 3) + 1) (pre_pqA (srtf_after 3)) 0 = None
   \<and> pre_tick sortDeployQueue (srtf_after 3) =
        Inr ((srtf_after 3)\<lparr> pre_currentTime := 4, pre_process := pre_ran (srtf_after 3) \<rparr>)
   \<and> pre_pq (srtf_after 0) \<noteq> []
   \<and> RemainingTime (pre_ran (srtf_after 0)) \<noteq> 0
   \<and> scan (pre_currentTime (srtf_after 0) + 1) (pre_pqA (srtf_after 0)) 0
        = Some (0, hd (pre_pqA (srtf_after 0)))
   \<and> map ProcessID (pre_pqA (srtf_after 0)) = [2, 3, 4]
   \<and> (case pre_tick sortDeployQueue (srtf_after 0) of
         Inr s' \<Rightarrow> (pre_currentTime s', map ProcessID (pre_pq s'), map ProcessID (pre_pqA s'))
       | Inl e \<Rightarrow> (0, [], []))
       = (1, [2, 1], [3, 4])"
proof -
  have h1: "pre_pq (overlap_after 1) \<noteq> []" by code_simp
  have h2: "RemainingTime (pre_ran (overlap_after 1)) = 0" by code_simp
  have h3: "map ProcessID (pre_pqA (overlap_after 1)) = [2]" by code_simp
  have h4: "map ArrivalTime (pre_pqA (overlap_after 1)) = [pre_currentTime (overlap_after 1) + 1]"
    by code_simp
  have v1: "(0 \<le> pre_count (overlap_after 1) \<and>
      pre_count (overlap_after 1) < int (length (pre_schedule (overlap_after 1))))" by code_simp
  have v2: "fadd (pre_totalWait (overlap_after 1))
        (float64_of_int (WaitTime (pre_completed (overlap_after 1)))) = Finite 0" by code_simp
  have v3: "fadd (pre_totalTurnaround (overlap_after 1))
        (float64_of_int (TurnAroundTime (pre_completed (overlap_after 1)))) = Finite 2" by code_simp
  have v4: "(pre_schedule (overlap_after 1))[nat (pre_count (overlap_after 1)) :=
        Some (row_of (pre_completed (overlap_after 1)))]
      = [Some \<lparr>row_ID = 1, row_Priority = 0, row_Burst = 2, row_Arrival = 0,
                row_Wait = 0, row_Turnaround = 2, row_Exit = 2\<rparr>, None]" by code_simp
  have v5: "pre_currentTime (overlap_after 1) + 1 = 2" by code_simp
  have v6: "tl (pre_pq (overlap_after 1)) = []" by code_simp
  have v7: "pre_count (overlap_after 1) + 1 = 1" by code_simp
  note T1 = C3_srtf_trace [of "overlap_after 1" sortDeployQueue]
  from T1 h1 h2 have c1: "pre_tick sortDeployQueue (overlap_after 1) =
        Inr ((overlap_after 1)
          \<lparr> pre_totalWait := Finite 0,
            pre_totalTurnaround := Finite 2,
            pre_schedule :=
              [Some \<lparr>row_ID = 1, row_Priority = 0, row_Burst = 2, row_Arrival = 0,
                      row_Wait = 0, row_Turnaround = 2, row_Exit = 2\<rparr>, None],
            pre_currentTime := 2,
            pre_pq := [],
            pre_process := pre_completed (overlap_after 1),
            pre_count := 1 \<rparr>)"
    unfolding v2 v3 v4 v5 v6 v7 using v1 by simp
  have k1: "pre_pq (srtf_after 3) \<noteq> []" by code_simp
  have k2: "RemainingTime (pre_ran (srtf_after 3)) \<noteq> 0" by code_simp
  have k3: "scan (pre_currentTime (srtf_after 3) + 1) (pre_pqA (srtf_after 3)) 0 = None"
    by code_simp
  have k4: "pre_currentTime (srtf_after 3) + 1 = 4" by code_simp
  note T2 = C3_srtf_trace [of "srtf_after 3" sortDeployQueue]
  from T2 k1 k2 k3 have c2: "pre_tick sortDeployQueue (srtf_after 3) =
        Inr ((srtf_after 3)\<lparr> pre_currentTime := 4, pre_process := pre_ran (srtf_after 3) \<rparr>)"
    unfolding k4 by simp
  have m1: "pre_pq (srtf_after 0) \<noteq> []" by code_simp
  have m2: "RemainingTime (pre_ran (srtf_after 0)) \<noteq> 0" by code_simp
  have m3: "scan (pre_currentTime (srtf_after 0) + 1) (pre_pqA (srtf_after 0)) 0
        = Some (0, hd (pre_pqA (srtf_after 0)))" by code_simp
  have m4: "map ProcessID (pre_pqA (srtf_after 0)) = [2, 3, 4]" by code_simp
  have m5: "(case pre_tick sortDeployQueue (srtf_after 0) of
         Inr s' \<Rightarrow> (pre_currentTime s', map ProcessID (pre_pq s'), map ProcessID (pre_pqA s'))
       | Inl e \<Rightarrow> (0, [], []))
       = (1, [2, 1], [3, 4])" by code_simp
  show ?thesis
    by (intro conjI) (fact h1 h2 h3 h4 c1 k1 k2 k3 c2 m1 m2 m3 m4 m5)+
qed

text \<open>
  C7. \<open>RRSchedule\<close> (quantum 2) on the single process (1, arrival 0, burst 5) charts the
  three intervals [0,2], [2,4], [4,5], all of process 1, and the row of process 1 shows
  the completion time 5 and the wait time 0. The throughput is the \<open>float64\<close> nearest to
  1/5.
\<close>

theorem C7_round_robin_single:
  "quantum_time = 2
   \<and> RRSchedule ''Round-robin'' [descriptor 1 0 5 0]
     = Some (Inr
        [OutputTitle ''Round-robin'',
         OutputGantt
          [\<lparr>PID = 1, Start = 0, Stop = 2\<rparr>, \<lparr>PID = 1, Start = 2, Stop = 4\<rparr>,
           \<lparr>PID = 1, Start = 4, Stop = 5\<rparr>],
         OutputSchedule
          [Some \<lparr>row_ID = 1, row_Priority = 0, row_Burst = 1, row_Arrival = 4,
                  row_Wait = 0, row_Turnaround = 1, row_Exit = 5\<rparr>]
          (Finite 0) (Finite 1) (Finite (3602879701896397 / 18014398509481984))])"
  by code_simp

text \<open>
  C4, as the claim states it, fails: on the empty input \<open>SJFSchedule\<close> panics at
  \<open>pqA.processes[0]\<close> (line 228), and the averages of \<open>FCFSSchedule\<close> are NaN.
\<close>

theorem C4_empty_input_counterexample:
  "SJFSchedule ''Shortest-job-first'' [] = Some (Inl IndexOutOfRange)
   \<and> FCFSSchedule ''First-come, first-serve'' []
       = [OutputTitle ''First-come, first-serve'', OutputGantt [], OutputSchedule [] NaN NaN NaN]
   \<and> NaN \<noteq> Finite 0"
  by code_simp

text \<open>
  C4, amended. For the empty input \<open>FCFSSchedule\<close> returns without panic, with an empty
  gantt chart and an empty table, and its three aggregates are the undefined quotient
  0/0 (NaN); \<open>SJFSchedule\<close> and \<open>SJFPrioritySchedule\<close> panic with an index out of range
  before they write anything.
\<close>

theorem C4_empty_input:
  "FCFSSchedule title [] = [OutputTitle title, OutputGantt [], OutputSchedule [] NaN NaN NaN]
   \<and> SJFSchedule title [] = Some (Inl IndexOutOfRange)
   \<and> SJFPrioritySchedule title [] = Some (Inl IndexOutOfRange)"
  by (simp add: FCFSSchedule_def FCFS_loop_def FCFS_init_def fdiv_def is_zero_def is_inf_def
      float64_of_int_def to_float64_def SJFSchedule_def
      SJFPrioritySchedule_def preemptive_def pre_init_def pre_copies_def sortArrivalQueue_def
      sortSlice_def index_def)

section \<open>FCFSSchedule\<close>

text \<open>The state of the loop after its first \<open>k\<close> iterations.\<close>

lemma FCFS_prefix:
  "k \<le> length ps \<Longrightarrow>
   fcfs_serviceTime (foldl (FCFS_body ps) (FCFS_init ps) [0..<k]) = service_before ps k \<and>
   fcfs_waitingTime (foldl (FCFS_body ps) (FCFS_init ps) [0..<k]) = carried_wait ps k \<and>
   fcfs_schedule (foldl (FCFS_body ps) (FCFS_init ps) [0..<k])
     = map (\<lambda>i. Some (spec_row ps i)) [0..<k] @ replicate (length ps - k) None \<and>
   fcfs_gantt (foldl (FCFS_body ps) (FCFS_init ps) [0..<k]) = map (spec_slice ps) [0..<k]"
proof (induction k)
  case 0
  show ?case by (simp add: FCFS_init_def)
next
  case (Suc k)
  let ?s = "foldl (FCFS_body ps) (FCFS_init ps) [0..<k]"
  from Suc have k: "k < length ps" and IH:
    "fcfs_serviceTime ?s = service_before ps k"
    "fcfs_waitingTime ?s = carried_wait ps k"
    "fcfs_schedule ?s = map (\<lambda>i. Some (spec_row ps i)) [0..<k] @ replicate (length ps - k) None"
    "fcfs_gantt ?s = map (spec_slice ps) [0..<k]" by simp_all
  have upd: "(map (\<lambda>i. Some (spec_row ps i)) [0..<k] @ replicate (length ps - k) None)[k := Some r]
      = map (\<lambda>i. Some (spec_row ps i)) [0..<k] @ Some r # replicate (length ps - Suc k) None" for r
  proof -
    from k obtain m where m: "length ps - k = Suc m" "length ps - Suc k = m"
      by (metis Suc_diff_Suc)
    show ?thesis by (simp add: m list_update_append)
  qed
  have step: "foldl (FCFS_body ps) (FCFS_init ps) [0..<Suc k] = FCFS_body ps ?s k"
    by simp
  show ?case
    unfolding step
    apply (simp add: FCFS_body_def Let_def IH upd del: carried_wait.simps service_before.simps)
    apply (simp add: spec_row_def spec_slice_def Let_def add.commute add.left_commute)
    done
qed

lemma rows_of_FCFS: "rows_of (FCFSSchedule title ps) = map (\<lambda>i. Some (spec_row ps i)) [0..<length ps]"
  using FCFS_prefix [of "length ps" ps] by (simp add: FCFSSchedule_def Let_def FCFS_loop_def)

lemma gantt_of_FCFS: "gantt_of (FCFSSchedule title ps) = Some (map (spec_slice ps) [0..<length ps])"
  using FCFS_prefix [of "length ps" ps] by (simp add: FCFSSchedule_def Let_def FCFS_loop_def)

lemma service_before_exact:
  "(\<forall>k \<le> i. is_int64 (sum_list (map BurstDuration (take k ps)))) \<Longrightarrow> i \<le> length ps \<Longrightarrow>
   service_before ps i = sum_list (map BurstDuration (take i ps))"
proof (induction i)
  case 0
  show ?case by simp
next
  case (Suc i)
  then have IH: "service_before ps i = sum_list (map BurstDuration (take i ps))" by simp
  from Suc.prems have "is_int64 (sum_list (map BurstDuration (take (Suc i) ps)))" by blast
  then show ?case using Suc.prems(2)
    by (simp add: IH take_Suc_conv_app_nth int64_id)
qed

text \<open>
  C2. \<open>FCFSSchedule\<close> walks the input in input order. At the iteration of the process
  at index \<open>i\<close> the service clock is what the bursts of the processes before it have
  accumulated to; the waiting time becomes service clock minus arrival time when the
  arrival time is positive and is otherwise the value left by the iteration before; the
  row of the process shows that waiting time, the turnaround burst + wait and the
  completion arrival + burst + wait; its interval starts at wait + arrival and stops at
  the service clock after the iteration, which has grown by the burst. The sums and the
  difference are those of \<open>int64\<close>; as long as the sums of the bursts fit \<open>int64\<close> the
  service clock is their sum.
\<close>

theorem C2_fcfs_iteration:
  "i < length processes \<Longrightarrow>
     fcfs_serviceTime (foldl (FCFS_body processes) (FCFS_init processes) [0..<i])
       = service_before processes i
   \<and> fcfs_waitingTime (foldl (FCFS_body processes) (FCFS_init processes) [0..<i])
       = carried_wait processes i
   \<and> fcfs_waitingTime (foldl (FCFS_body processes) (FCFS_init processes) [0..<Suc i])
       = (if ArrivalTime (processes ! i) > 0
          then int64 (service_before processes i - ArrivalTime (processes ! i))
          else carried_wait processes i)
   \<and> fcfs_serviceTime (foldl (FCFS_body processes) (FCFS_init processes) [0..<Suc i])
       = int64 (service_before processes i + BurstDuration (processes ! i))
   \<and> rows_of (FCFSSchedule title processes) ! i
       = Some \<lparr> row_ID = ProcessID (processes ! i), row_Priority = Priority (processes ! i),
                 row_Burst = BurstDuration (processes ! i),
                 row_Arrival = ArrivalTime (processes ! i),
                 row_Wait = carried_wait processes (Suc i),
                 row_Turnaround =
                   int64 (BurstDuration (processes ! i) + carried_wait processes (Suc i)),
                 row_Exit =
                   int64 (ArrivalTime (processes ! i) + BurstDuration (processes ! i)
                          + carried_wait processes (Suc i)) \<rparr>
   \<and> length (rows_of (FCFSSchedule title processes)) = length processes
   \<and> (\<exists>g. gantt_of (FCFSSchedule title processes) = Some g \<and> length g = length processes \<and>
         g ! i = \<lparr> PID = ProcessID (processes ! i),
                   Start = int64 (carried_wait processes (Suc i) + ArrivalTime (processes ! i)),
                   Stop = int64 (service_before processes i + BurstDuration (processes ! i)) \<rparr>)
   \<and> ((\<forall>k \<le> Suc i. is_int64 (sum_list (map BurstDuration (take k processes)))) \<longrightarrow>
        service_before processes i = sum_list (map BurstDuration (take i processes)) \<and>
        int64 (service_before processes i + BurstDuration (processes ! i))
          = sum_list (map BurstDuration (take (Suc i) processes)))"
proof -
  assume i: "i < length processes"
  then have le: "i \<le> length processes" "Suc i \<le> length processes" by simp_all
  have x: "(\<forall>k \<le> Suc i. is_int64 (sum_list (map BurstDuration (take k processes)))) \<longrightarrow>
        service_before processes i = sum_list (map BurstDuration (take i processes)) \<and>
        int64 (service_before processes i + BurstDuration (processes ! i))
          = sum_list (map BurstDuration (take (Suc i) processes))"
  proof
    assume a: "\<forall>k \<le> Suc i. is_int64 (sum_list (map BurstDuration (take k processes)))"
    then have b: "\<forall>k \<le> i. is_int64 (sum_list (map BurstDuration (take k processes)))" by simp
    from service_before_exact [OF a le(2)] service_before_exact [OF b le(1)]
    show "service_before processes i = sum_list (map BurstDuration (take i processes)) \<and>
        int64 (service_before processes i + BurstDuration (processes ! i))
          = sum_list (map BurstDuration (take (Suc i) processes))"
      by simp
  qed
  from FCFS_prefix [OF le(1)] have p:
    "fcfs_serviceTime (foldl (FCFS_body processes) (FCFS_init processes) [0..<i])
       = service_before processes i"
    "fcfs_waitingTime (foldl (FCFS_body processes) (FCFS_init processes) [0..<i])
       = carried_wait processes i" by simp_all
  from FCFS_prefix [OF le(2)] have q:
    "fcfs_waitingTime (foldl (FCFS_body processes) (FCFS_init processes) [0..<Suc i])
       = (if ArrivalTime (processes ! i) > 0
          then int64 (service_before processes i - ArrivalTime (processes ! i))
          else carried_wait processes i)"
    "fcfs_serviceTime (foldl (FCFS_body processes) (FCFS_init processes) [0..<Suc i])
       = int64 (service_before processes i + BurstDuration (processes ! i))" by simp_all
  have r: "rows_of (FCFSSchedule title processes) ! i
       = Some \<lparr> row_ID = ProcessID (processes ! i), row_Priority = Priority (processes ! i),
                 row_Burst = BurstDuration (processes ! i),
                 row_Arrival = ArrivalTime (processes ! i),
                 row_Wait = carried_wait processes (Suc i),
                 row_Turnaround =
                   int64 (BurstDuration (processes ! i) + carried_wait processes (Suc i)),
                 row_Exit =
                   int64 (ArrivalTime (processes ! i) + BurstDuration (processes ! i)
                          + carried_wait processes (Suc i)) \<rparr>"
    unfolding rows_of_FCFS using i by (simp add: spec_row_def Let_def del: carried_wait.simps)
  have l: "length (rows_of (FCFSSchedule title processes)) = length processes"
    unfolding rows_of_FCFS by simp
  have g: "\<exists>g. gantt_of (FCFSSchedule title processes) = Some g \<and> length g = length processes \<and>
         g ! i = \<lparr> PID = ProcessID (processes ! i),
                   Start = int64 (carried_wait processes (Suc i) + ArrivalTime (processes ! i)),
                   Stop = int64 (service_before processes i + BurstDuration (processes ! i)) \<rparr>"
    unfolding gantt_of_FCFS using i by (simp add: spec_slice_def Let_def del: carried_wait.simps)
  show ?thesis
    by (intro conjI p q r l g x)
qed

theorem C2_fcfs_iteration_witness:
  "(1::nat) < length [descriptor 1 0 5 0, descriptor 2 1 3 0]
   \<and> rows_of (FCFSSchedule ''First-come, first-serve'' [descriptor 1 0 5 0, descriptor 2 1 3 0]) ! 1
       = Some \<lparr>row_ID = 2, row_Priority = 0, row_Burst = 3, row_Arrival = 1,
               row_Wait = 4, row_Turnaround = 7, row_Exit = 8\<rparr>
   \<and> gantt_of (FCFSSchedule ''First-come, first-serve'' [descriptor 1 0 5 0, descriptor 2 1 3 0])
       = Some [\<lparr>PID = 1, Start = 0, Stop = 5\<rparr>, \<lparr>PID = 2, Start = 5, Stop = 8\<rparr>]
   \<and> is_int64 (sum_list (map BurstDuration (take 0 [descriptor 1 0 5 0, descriptor 2 1 3 0])))
   \<and> is_int64 (sum_list (map BurstDuration (take 1 [descriptor 1 0 5 0, descriptor 2 1 3 0])))
   \<and> is_int64 (sum_list (map BurstDuration (take 2 [descriptor 1 0 5 0, descriptor 2 1 3 0])))
   \<and> service_before [descriptor 1 0 5 0, descriptor 2 1 3 0] 1 = 5
   \<and> (1::nat) < length [descriptor 1 0 9223372036854775807 0, descriptor 2 1 1 0]
   \<and> rows_of (FCFSSchedule ''First-come, first-serve''
        [descriptor 1 0 9223372036854775807 0, descriptor 2 1 1 0]) ! 1
       = Some \<lparr>row_ID = 2, row_Priority = 0, row_Burst = 1, row_Arrival = 1,
               row_Wait = 9223372036854775806, row_Turnaround = 9223372036854775807,
               row_Exit = - 9223372036854775808\<rparr>"
proof -
  let ?ps = "[descriptor 1 0 5 0, descriptor 2 1 3 0]"
  let ?qs = "[descriptor 1 0 9223372036854775807 0, descriptor 2 1 1 0]"
  note T = C2_fcfs_iteration [of 1 ?ps "''First-come, first-serve''"]
  note U = C2_fcfs_iteration [of 1 ?qs "''First-come, first-serve''"]
  have h: "(1::nat) < length ?ps" by simp
  have h': "(1::nat) < length ?qs" by simp
  have r: "is_int64 (sum_list (map BurstDuration (take 0 ?ps)))"
    "is_int64 (sum_list (map BurstDuration (take 1 ?ps)))"
    "is_int64 (sum_list (map BurstDuration (take 2 ?ps)))"
    by (simp_all add: is_int64_def descriptor_def)
  have ra: "\<forall>k \<le> Suc 1. is_int64 (sum_list (map BurstDuration (take k ?ps)))"
  proof (intro allI impI)
    fix k :: nat assume "k \<le> Suc 1"
    then have "k = 0 \<or> k = 1 \<or> k = 2" by auto
    with r show "is_int64 (sum_list (map BurstDuration (take k ?ps)))" by auto
  qed
  from T [OF h] have c1:
    "rows_of (FCFSSchedule ''First-come, first-serve'' ?ps) ! 1
       = Some \<lparr>row_ID = 2, row_Priority = 0, row_Burst = 3, row_Arrival = 1,
               row_Wait = 4, row_Turnaround = 7, row_Exit = 8\<rparr>"
    by (simp add: descriptor_def int64_def)
  from T [OF h] ra have c3: "service_before ?ps 1 = 5" by (simp add: descriptor_def int64_def)
  have c2: "gantt_of (FCFSSchedule ''First-come, first-serve'' ?ps)
       = Some [\<lparr>PID = 1, Start = 0, Stop = 5\<rparr>, \<lparr>PID = 2, Start = 5, Stop = 8\<rparr>]"
    by code_simp
  from U [OF h'] have c4:
    "rows_of (FCFSSchedule ''First-come, first-serve'' ?qs) ! 1
       = Some \<lparr>row_ID = 2, row_Priority = 0, row_Burst = 1, row_Arrival = 1,
               row_Wait = 9223372036854775806, row_Turnaround = 9223372036854775807,
               row_Exit = - 9223372036854775808\<rparr>"
    by (simp add: descriptor_def int64_def)
  show ?thesis
    by (intro conjI) (fact h h' r c1 c2 c3 c4)+
qed

section \<open>The arrival scan admits one process per tick\<close>








end
